theory Spec2Isabelle
  imports Main
begin

section \<open>Errors\<close>

text \<open>
  The exceptions the modelled code can raise. \<open>AssertionError\<close> is what a failing
  \<^verbatim>\<open>assert\<close> raises, \<open>AttributeError\<close> and \<open>TypeError\<close> are what Python raises when
  a method or \<^verbatim>\<open>len\<close> is applied to an object that has none, \<open>IOError\<close> is a failing
  \<^verbatim>\<open>open\<close>, \<open>UnpicklingError\<close> a failing \<^verbatim>\<open>pickle.load\<close>. \<open>InsufficientDataError\<close>
  is the error the specification gives to the queue's own \<^verbatim>\<open>sample\<close>.
\<close>

datatype error =
    AssertionError
  | AttributeError
  | TypeError
  | IOError
  | UnpicklingError
  | InsufficientDataError

section \<open>Transitions\<close>

text \<open>
  The dictionary that \<^verbatim>\<open>append\<close> builds from its arguments. The buffer never looks
  inside the values, so they all have one opaque type \<open>'v\<close>; \<^verbatim>\<open>next_state\<close> and
  \<^verbatim>\<open>next_action\<close> default to \<^verbatim>\<open>None\<close>; the extra keyword arguments are kept as an
  association list.
\<close>

record 'v experience =
  state :: 'v
  action :: 'v
  reward :: 'v
  next_state :: "'v option"
  next_action :: "'v option"
  is_state_terminal :: bool
  kwargs :: "(string \<times> 'v) list"

section \<open>The standard library's bounded deque\<close>

text \<open>
  \<^verbatim>\<open>collections.deque(maxlen=m).append(x)\<close>: the item is added on the right, and if the
  deque is then longer than \<open>m\<close> the leftmost item is dropped. The deque is the list of
  its items, oldest first.
\<close>

definition deque_append :: "nat option \<Rightarrow> 'a list \<Rightarrow> 'a \<Rightarrow> 'a list" where
  "deque_append m d x =
     (let d' = d @ [x]
      in case m of
           None \<Rightarrow> d'
         | Some n \<Rightarrow> if n < length d' then tl d' else d')"

section \<open>The random-access queue\<close>

text \<open>
  \<^verbatim>\<open>chainerrl.misc.collections.RandomAccessQueue\<close> is imported by the buffer but its
  source is not part of the files at hand. The queue is the list of its items, oldest
  first, with its bound.
\<close>

record 'a random_access_queue =
  items :: "'a list"
  maxlen :: "nat option"

text \<open>
  Modelled from the spec: the constructor \<^verbatim>\<open>RandomAccessQueue(iterable, maxlen=m)\<close>, whose
  source is missing. The specification asks that an older, plain bounded deque be
  "upgraded transparently into the current indexed representation" and that persistence
  be "order-preserving": the new queue holds the given items in their order, under the
  given bound.
\<close>

definition raq_init :: "'a list \<Rightarrow> nat option \<Rightarrow> 'a random_access_queue" where
  "raq_init xs m = \<lparr>items = xs, maxlen = m\<rparr>"

text \<open>
  Modelled from the spec: \<^verbatim>\<open>RandomAccessQueue.append\<close>, whose source is missing. The
  specification: "a FIFO container with a maximum size; appends evict the oldest entry
  when full", "if current size == capacity, the logically oldest item is discarded
  before/while inserting the new one (capacity None/unbounded means never evict)",
  "Queue length never exceeds configured capacity; oldest StoredTransition is evicted
  first when capacity is exceeded by a new append". The item is inserted at the new end
  and, if the bound is then exceeded, the oldest item is discarded; on a queue that
  holds exactly its capacity this discards the oldest item and inserts the new one.
\<close>

definition raq_append :: "'a random_access_queue \<Rightarrow> 'a \<Rightarrow> 'a random_access_queue" where
  "raq_append q x =
     (let xs = items q @ [x]
      in case maxlen q of
           None \<Rightarrow> q\<lparr>items := xs\<rparr>
         | Some c \<Rightarrow> if c < length xs then q\<lparr>items := tl xs\<rparr> else q\<lparr>items := xs\<rparr>)"

text \<open>
  Modelled from the spec: \<^verbatim>\<open>len\<close> of a \<^verbatim>\<open>RandomAccessQueue\<close> ("length() -- current
  count"), whose source is missing.
\<close>

definition raq_len :: "'a random_access_queue \<Rightarrow> nat" where
  "raq_len q = length (items q)"

text \<open>
  A draw of the random source: \<open>k\<close> positions of a queue of \<open>n\<close> items, no position
  twice (sampling without replacement). That the draw is uniform is a statement of
  probability and is not modelled.
\<close>

definition valid_draw :: "nat \<Rightarrow> nat \<Rightarrow> nat list \<Rightarrow> bool" where
  "valid_draw n k draw = (length draw = k \<and> distinct draw \<and> list_all (\<lambda>i. i < n) draw)"

text \<open>
  Modelled from the spec: \<^verbatim>\<open>RandomAccessQueue.sample\<close>, whose source is missing. The
  specification: "sample(k) -- fails with InsufficientDataError if k exceeds current
  size; otherwise returns k items drawn uniformly at random without replacement, in
  arbitrary order". The random choice is the argument \<open>draw\<close>, the positions drawn.
\<close>

definition raq_sample :: "'a random_access_queue \<Rightarrow> nat \<Rightarrow> nat list \<Rightarrow> error + 'a list" where
  "raq_sample q k draw =
     (if length (items q) < k then Inl InsufficientDataError
      else Inr (map (\<lambda>i. items q ! i) draw))"

section \<open>Python objects that the attribute \<^verbatim>\<open>memory\<close> can hold\<close>

text \<open>
  \<^verbatim>\<open>self.memory\<close> is a \<^verbatim>\<open>RandomAccessQueue\<close> after \<^verbatim>\<open>__init__\<close>, but \<^verbatim>\<open>load\<close> assigns to it
  whatever \<^verbatim>\<open>pickle.load\<close> returns. The objects modelled are the queue, the plain bounded
  deque of the older format, and two objects that are neither: \<^verbatim>\<open>None\<close> and an integer.
  A stored transition is a list of experiences, oldest first.
\<close>

datatype 'v pyobj =
    PyQueue "'v experience list random_access_queue"
  | PyDeque "'v experience list list" "nat option"
  | PyNone
  | PyInt int

text \<open>\<^verbatim>\<open>self.memory.append(x)\<close>, by the class of the object.\<close>

fun memory_append :: "'v pyobj \<Rightarrow> 'v experience list \<Rightarrow> error + 'v pyobj" where
  "memory_append (PyQueue q) x = Inr (PyQueue (raq_append q x))"
| "memory_append (PyDeque d m) x = Inr (PyDeque (deque_append m d x) m)"
| "memory_append PyNone x = Inl AttributeError"
| "memory_append (PyInt i) x = Inl AttributeError"

text \<open>\<^verbatim>\<open>len(self.memory)\<close>, by the class of the object.\<close>

fun memory_len :: "'v pyobj \<Rightarrow> error + nat" where
  "memory_len (PyQueue q) = Inr (raq_len q)"
| "memory_len (PyDeque d m) = Inr (length d)"
| "memory_len PyNone = Inl TypeError"
| "memory_len (PyInt i) = Inl TypeError"

text \<open>\<^verbatim>\<open>self.memory.sample(k)\<close>, by the class of the object.\<close>

fun memory_sample :: "'v pyobj \<Rightarrow> nat \<Rightarrow> nat list \<Rightarrow> error + 'v experience list list" where
  "memory_sample (PyQueue q) k draw = raq_sample q k draw"
| "memory_sample (PyDeque d m) k draw = Inl AttributeError"
| "memory_sample PyNone k draw = Inl AttributeError"
| "memory_sample (PyInt i) k draw = Inl AttributeError"

section \<open>The replay buffer\<close>

text \<open>
  The attributes of a \<^verbatim>\<open>ReplayBuffer\<close>. \<^verbatim>\<open>last_n_transitions\<close> is a
  \<^verbatim>\<open>defaultdict\<close> from environment ids to deques of bound \<^verbatim>\<open>num_steps\<close>: a map to
  the lists of their items, a missing key standing for a deque not yet created.
\<close>

record ('k, 'v) replay_buffer =
  capacity :: "nat option"
  num_steps :: nat
  memory :: "'v pyobj"
  last_n_transitions :: "'k \<rightharpoonup> 'v experience list"

text \<open>\<^verbatim>\<open>__init__\<close>: the assertion on \<^verbatim>\<open>num_steps\<close>, then an empty queue and no windows.\<close>

definition init :: "nat option \<Rightarrow> int \<Rightarrow> error + ('k, 'v) replay_buffer" where
  "init capacity' num_steps' =
     (if 0 < num_steps' then
        Inr \<lparr>capacity = capacity', num_steps = nat num_steps',
             memory = PyQueue (raq_init [] capacity'),
             last_n_transitions = Map.empty\<rparr>
      else Inl AssertionError)"

text \<open>
  \<^verbatim>\<open>self.last_n_transitions[env_id]\<close>: the deque of the environment, a new empty one if
  the key is missing.
\<close>

definition getitem :: "('k \<rightharpoonup> 'a list) \<Rightarrow> 'k \<Rightarrow> 'a list" where
  "getitem d k = (case d k of None \<Rightarrow> [] | Some w \<Rightarrow> w)"

text \<open>
  The loop \<^verbatim>\<open>while last_n_transitions: self.memory.append(list(last_n_transitions));
  del last_n_transitions[0]\<close>. It returns the memory and the deque it leaves.
\<close>

fun drain :: "'v pyobj \<Rightarrow> 'v experience list \<Rightarrow> error + ('v pyobj \<times> 'v experience list)" where
  "drain mem [] = Inr (mem, [])"
| "drain mem (x # xs) =
     (case memory_append mem (x # xs) of
        Inl e \<Rightarrow> Inl e
      | Inr mem' \<Rightarrow> drain mem' xs)"

text \<open>\<^verbatim>\<open>ReplayBuffer.append\<close>.\<close>

definition append_rb ::
  "('k, 'v) replay_buffer \<Rightarrow> 'v \<Rightarrow> 'v \<Rightarrow> 'v \<Rightarrow> 'v option \<Rightarrow> 'v option \<Rightarrow> bool \<Rightarrow> 'k
     \<Rightarrow> (string \<times> 'v) list \<Rightarrow> error + ('k, 'v) replay_buffer" where
  "append_rb self state' action' reward' next_state' next_action' is_state_terminal' env_id kwargs' =
     (let last_n = getitem (last_n_transitions self) env_id;
          experience = \<lparr>state = state', action = action', reward = reward',
                        next_state = next_state', next_action = next_action',
                        is_state_terminal = is_state_terminal', kwargs = kwargs'\<rparr>;
          last_n = deque_append (Some (num_steps self)) last_n experience
      in if is_state_terminal' then
           (case drain (memory self) last_n of
              Inl e \<Rightarrow> Inl e
            | Inr (mem, last_n') \<Rightarrow>
                if length last_n' = 0 then
                  Inr (self\<lparr>memory := mem,
                            last_n_transitions := (last_n_transitions self)(env_id \<mapsto> last_n')\<rparr>)
                else Inl AssertionError)
         else if length last_n = num_steps self then
           (case memory_append (memory self) last_n of
              Inl e \<Rightarrow> Inl e
            | Inr mem \<Rightarrow>
                Inr (self\<lparr>memory := mem,
                          last_n_transitions := (last_n_transitions self)(env_id \<mapsto> last_n)\<rparr>))
         else Inr (self\<lparr>last_n_transitions := (last_n_transitions self)(env_id \<mapsto> last_n)\<rparr>))"

text \<open>\<^verbatim>\<open>ReplayBuffer.stop_current_episode\<close>.\<close>

definition stop_current_episode ::
  "('k, 'v) replay_buffer \<Rightarrow> 'k \<Rightarrow> error + ('k, 'v) replay_buffer" where
  "stop_current_episode self env_id =
     (let last_n = getitem (last_n_transitions self) env_id
      in case (if 0 < length last_n \<and> length last_n < num_steps self
               then memory_append (memory self) last_n
               else Inr (memory self)) of
           Inl e \<Rightarrow> Inl e
         | Inr mem1 \<Rightarrow>
             (let last_n1 = (if 0 < length last_n \<and> length last_n \<le> num_steps self
                             then tl last_n else last_n)
              in case drain mem1 last_n1 of
                   Inl e \<Rightarrow> Inl e
                 | Inr (mem2, last_n2) \<Rightarrow>
                     if length last_n2 = 0 then
                       Inr (self\<lparr>memory := mem2,
                                 last_n_transitions :=
                                   (last_n_transitions self)(env_id \<mapsto> last_n2)\<rparr>)
                     else Inl AssertionError))"

text \<open>\<^verbatim>\<open>ReplayBuffer.__len__\<close>.\<close>

definition len_rb :: "('k, 'v) replay_buffer \<Rightarrow> error + nat" where
  "len_rb self = memory_len (memory self)"

text \<open>
  \<^verbatim>\<open>ReplayBuffer.sample\<close>: the assertion, then the queue's own \<^verbatim>\<open>sample\<close>. The number
  of experiences asked for is a count, a natural number.
\<close>

definition sample ::
  "('k, 'v) replay_buffer \<Rightarrow> nat \<Rightarrow> nat list \<Rightarrow> error + 'v experience list list" where
  "sample self num_experiences draw =
     (case memory_len (memory self) of
        Inl e \<Rightarrow> Inl e
      | Inr n \<Rightarrow>
          if num_experiences \<le> n then memory_sample (memory self) num_experiences draw
          else Inl AssertionError)"

section \<open>Files and pickling\<close>

text \<open>
  What a file holds: the bytes that \<^verbatim>\<open>pickle.dump\<close> writes for an object, which
  \<^verbatim>\<open>pickle.load\<close> reads back as that object, or bytes that are no pickle. A file system
  is the files that exist and the names that can be opened for writing.
\<close>

datatype 'v file_content = Pickle "'v pyobj" | NotPickle

record 'v filesystem =
  files :: "string \<rightharpoonup> 'v file_content"
  writable :: "string \<Rightarrow> bool"

definition pickle_dump :: "'v pyobj \<Rightarrow> 'v file_content" where
  "pickle_dump obj = Pickle obj"

fun pickle_load :: "'v file_content \<Rightarrow> error + 'v pyobj" where
  "pickle_load (Pickle obj) = Inr obj"
| "pickle_load NotPickle = Inl UnpicklingError"

text \<open>\<^verbatim>\<open>ReplayBuffer.save\<close>: the buffer is not changed, the file is written.\<close>

definition save :: "('k, 'v) replay_buffer \<Rightarrow> string \<Rightarrow> 'v filesystem \<Rightarrow> error + 'v filesystem" where
  "save self filename fs =
     (if writable fs filename then
        Inr (fs\<lparr>files := (files fs)(filename \<mapsto> pickle_dump (memory self))\<rparr>)
      else Inl IOError)"

text \<open>\<^verbatim>\<open>ReplayBuffer.load\<close>.\<close>

definition load ::
  "('k, 'v) replay_buffer \<Rightarrow> string \<Rightarrow> 'v filesystem \<Rightarrow> error + ('k, 'v) replay_buffer" where
  "load self filename fs =
     (case files fs filename of
        None \<Rightarrow> Inl IOError
      | Some content \<Rightarrow>
          (case pickle_load content of
             Inl e \<Rightarrow> Inl e
           | Inr obj \<Rightarrow>
               (let self = self\<lparr>memory := obj\<rparr>
                in case memory self of
                     PyDeque d m \<Rightarrow> Inr (self\<lparr>memory := PyQueue (raq_init d m)\<rparr>)
                   | _ \<Rightarrow> Inr self)))"

section \<open>Sequences of calls\<close>

datatype ('k, 'v) call =
    Append 'v 'v 'v "'v option" "'v option" bool 'k "(string \<times> 'v) list"
  | Stop 'k

fun call_rb :: "('k, 'v) replay_buffer \<Rightarrow> ('k, 'v) call \<Rightarrow> error + ('k, 'v) replay_buffer" where
  "call_rb self (Append s a r ns na t env kw) = append_rb self s a r ns na t env kw"
| "call_rb self (Stop env) = stop_current_episode self env"

fun run :: "('k, 'v) replay_buffer \<Rightarrow> ('k, 'v) call list \<Rightarrow> error + ('k, 'v) replay_buffer" where
  "run self [] = Inr self"
| "run self (c # cs) =
     (case call_rb self c of
        Inl e \<Rightarrow> Inl e
      | Inr self' \<Rightarrow> run self' cs)"

text \<open>The stored transitions that an object holds, oldest first, if it is a queue.\<close>

fun stored :: "'v pyobj \<Rightarrow> 'v experience list list" where
  "stored (PyQueue q) = items q"
| "stored (PyDeque d m) = d"
| "stored PyNone = []"
| "stored (PyInt i) = []"

text \<open>
  The suffixes of a window that are not empty, the longest first: the stored transitions
  of lengths \<open>L, L - 1, ..., 1\<close> that the claims speak of.
\<close>

fun suffixes_desc :: "'a list \<Rightarrow> 'a list list" where
  "suffixes_desc [] = []"
| "suffixes_desc (x # xs) = (x # xs) # suffixes_desc xs"

text \<open>
  A transition for examples: every field is the number \<open>n\<close>, with the terminal flag as
  given and no extra keyword arguments.
\<close>

definition step :: "nat \<Rightarrow> bool \<Rightarrow> nat experience" where
  "step n t = \<lparr>state = n, action = n, reward = n, next_state = None, next_action = None,
               is_state_terminal = t, kwargs = []\<rparr>"

section \<open>Suffixes, the deque and the queue\<close>

lemma suffixes_desc_length: "length (suffixes_desc w) = length w"
  by (induction w) auto

lemma suffixes_desc_map_length: "map length (suffixes_desc w) = rev [1..<Suc (length w)]"
  by (induction w) auto

lemma suffixes_desc_nth: "i < length w \<Longrightarrow> suffixes_desc w ! i = drop i w"
  by (induction w arbitrary: i) (auto simp: nth_Cons split: nat.splits)

lemma deque_append_length:
  "length (deque_append (Some n) d x) = (if n < Suc (length d) then length d else Suc (length d))"
  by (simp add: deque_append_def Let_def)

lemma raq_len_append:
  "raq_len (raq_append q x) =
     (case maxlen q of
        None \<Rightarrow> Suc (raq_len q)
      | Some c \<Rightarrow> if c < Suc (raq_len q) then raq_len q else Suc (raq_len q))"
  by (simp add: raq_len_def raq_append_def Let_def split: option.splits)

text \<open>
  On a queue the draining loop cannot fail: it pushes the suffixes of the window, the
  longest first, and leaves the window empty.
\<close>

lemma drain_queue:
  "drain (PyQueue q) w = Inr (PyQueue (foldl raq_append q (suffixes_desc w)), [])"
  by (induction w arbitrary: q) auto

section \<open>Terminal append\<close>

text \<open>
  Claim C1. Let \<open>w\<close> be the window of the environment after the new transition has been
  put into it, of length \<open>L\<close>. A call of \<^verbatim>\<open>append\<close> with the terminal flag set returns
  normally; the queue it leaves is the old queue after pushing, in this order, the
  suffixes of \<open>w\<close> of lengths \<open>L, L - 1, ..., 1\<close> (the \<open>i\<close>-th push is \<open>w\<close> without its
  first \<open>i\<close> transitions), which are \<open>L\<close> pushes; the window of that environment is left
  empty and nothing else of the buffer changes. When the window held at most
  \<^verbatim>\<open>num_steps\<close> transitions before, \<open>1 \<le> L \<le> num_steps\<close>.
\<close>

theorem terminal_append_pushes_suffixes:
  assumes "memory self = PyQueue q"
  shows "let w = deque_append (Some (num_steps self)) (getitem (last_n_transitions self) env_id)
                   \<lparr>state = s, action = a, reward = r, next_state = ns, next_action = na,
                    is_state_terminal = True, kwargs = kw\<rparr>
         in append_rb self s a r ns na True env_id kw =
              Inr (self\<lparr>memory := PyQueue (foldl raq_append q (suffixes_desc w)),
                        last_n_transitions := (last_n_transitions self)(env_id \<mapsto> [])\<rparr>)
            \<and> length (suffixes_desc w) = length w
            \<and> map length (suffixes_desc w) = rev [1..<Suc (length w)]
            \<and> (\<forall>i<length w. suffixes_desc w ! i = drop i w)
            \<and> (0 < num_steps self \<and> length (getitem (last_n_transitions self) env_id) \<le> num_steps self
                 \<longrightarrow> 1 \<le> length w \<and> length w \<le> num_steps self)"
  using assms
  by (simp add: append_rb_def Let_def drain_queue suffixes_desc_length suffixes_desc_map_length
        suffixes_desc_nth deque_append_length)

text \<open>
  With \<^verbatim>\<open>num_steps = 2\<close> and the window \<open>[t1]\<close>, a terminal \<open>t2\<close> pushes \<open>[t1, t2]\<close> and
  then \<open>[t2]\<close>.
\<close>

theorem terminal_append_pushes_suffixes_witness:
  "memory \<lparr>capacity = Some 3, num_steps = 2, memory = PyQueue \<lparr>items = [], maxlen = Some 3\<rparr>,
           last_n_transitions = [0::nat \<mapsto> [step 1 False]]\<rparr>
     = PyQueue \<lparr>items = [], maxlen = Some 3\<rparr>
   \<and> append_rb \<lparr>capacity = Some 3, num_steps = 2,
                 memory = PyQueue \<lparr>items = [], maxlen = Some 3\<rparr>,
                 last_n_transitions = [0::nat \<mapsto> [step 1 False]]\<rparr>
        2 2 2 None None True 0 []
     = Inr \<lparr>capacity = Some 3, num_steps = 2,
            memory = PyQueue \<lparr>items = [[step 1 False, step 2 True], [step 2 True]],
                              maxlen = Some 3\<rparr>,
            last_n_transitions = [0 \<mapsto> []]\<rparr>"
  using terminal_append_pushes_suffixes
    [of "\<lparr>capacity = Some 3, num_steps = 2, memory = PyQueue \<lparr>items = [], maxlen = Some 3\<rparr>,
          last_n_transitions = [0::nat \<mapsto> [step 1 False]]\<rparr>"
        "\<lparr>items = [], maxlen = Some 3\<rparr>" 0 2 2 2 None None "[]"]
  by (simp add: Let_def getitem_def deque_append_def raq_append_def step_def)

section \<open>Append on a full window\<close>

text \<open>
  Claim C2. When the window of an environment holds \<^verbatim>\<open>num_steps\<close> transitions, a call of
  \<^verbatim>\<open>append\<close> without the terminal flag returns normally and pushes exactly one stored
  transition: the window after the call, which is the old window without its oldest
  transition followed by the new one, of length \<^verbatim>\<open>num_steps\<close> again (so the same holds
  for the next call). The number of stored transitions grows by one, unless the queue
  was at its capacity and the push evicted one.
\<close>

theorem full_window_append_pushes_one:
  assumes "memory self = PyQueue q"
    and "0 < num_steps self"
    and "length (getitem (last_n_transitions self) env_id) = num_steps self"
  shows "let w = tl (getitem (last_n_transitions self) env_id)
                   @ [\<lparr>state = s, action = a, reward = r, next_state = ns, next_action = na,
                       is_state_terminal = False, kwargs = kw\<rparr>]
         in append_rb self s a r ns na False env_id kw =
              Inr (self\<lparr>memory := PyQueue (raq_append q w),
                        last_n_transitions := (last_n_transitions self)(env_id \<mapsto> w)\<rparr>)
            \<and> length w = num_steps self
            \<and> raq_len (raq_append q w) =
                (case maxlen q of
                   None \<Rightarrow> Suc (raq_len q)
                 | Some c \<Rightarrow> if c < Suc (raq_len q) then raq_len q else Suc (raq_len q))"
proof -
  have "getitem (last_n_transitions self) env_id \<noteq> []"
    using assms(2,3) by auto
  then show ?thesis
    using assms
    by (simp add: append_rb_def Let_def deque_append_def raq_len_append)
qed

text \<open>
  With \<^verbatim>\<open>num_steps = 2\<close>, the window \<open>[t1, t2]\<close> and the queue \<open>[[t1, t2]]\<close>, a
  non-terminal \<open>t3\<close> pushes \<open>[t2, t3]\<close>.
\<close>

theorem full_window_append_pushes_one_witness:
  "memory \<lparr>capacity = Some 3, num_steps = 2,
           memory = PyQueue \<lparr>items = [[step 1 False, step 2 False]], maxlen = Some 3\<rparr>,
           last_n_transitions = [0::nat \<mapsto> [step 1 False, step 2 False]]\<rparr>
     = PyQueue \<lparr>items = [[step 1 False, step 2 False]], maxlen = Some 3\<rparr>
   \<and> append_rb \<lparr>capacity = Some 3, num_steps = 2,
                 memory = PyQueue \<lparr>items = [[step 1 False, step 2 False]], maxlen = Some 3\<rparr>,
                 last_n_transitions = [0::nat \<mapsto> [step 1 False, step 2 False]]\<rparr>
        3 3 3 None None False 0 []
     = Inr \<lparr>capacity = Some 3, num_steps = 2,
            memory = PyQueue \<lparr>items = [[step 1 False, step 2 False], [step 2 False, step 3 False]],
                              maxlen = Some 3\<rparr>,
            last_n_transitions = [0 \<mapsto> [step 2 False, step 3 False]]\<rparr>"
  using full_window_append_pushes_one
    [of "\<lparr>capacity = Some 3, num_steps = 2,
          memory = PyQueue \<lparr>items = [[step 1 False, step 2 False]], maxlen = Some 3\<rparr>,
          last_n_transitions = [0::nat \<mapsto> [step 1 False, step 2 False]]\<rparr>"
        "\<lparr>items = [[step 1 False, step 2 False]], maxlen = Some 3\<rparr>" 0 3 3 3 None None "[]"]
  by (simp add: Let_def getitem_def raq_append_def step_def)

section \<open>Stopping an episode\<close>

text \<open>
  Claim C4. Let \<open>w\<close> be the window of the environment, of length \<open>L \<le> num_steps\<close> (a deque
  of bound \<^verbatim>\<open>num_steps\<close> is never longer). \<^verbatim>\<open>stop_current_episode\<close> returns normally and
  leaves that window empty. If \<open>L < num_steps\<close> it pushes the suffixes of \<open>w\<close> of lengths
  \<open>L, ..., 1\<close>; if \<open>L = num_steps\<close> it pushes only the suffixes of lengths
  \<open>num_steps - 1, ..., 1\<close>, those of \<open>w\<close> without its oldest transition, and not \<open>w\<close>
  itself; on an empty window it pushes nothing.
\<close>

theorem stop_current_episode_emits_remaining:
  assumes "memory self = PyQueue q"
    and "length (getitem (last_n_transitions self) env_id) \<le> num_steps self"
  shows "let w = getitem (last_n_transitions self) env_id
         in stop_current_episode self env_id =
              Inr (self\<lparr>memory := PyQueue (foldl raq_append q
                                   (if length w = num_steps self then suffixes_desc (tl w)
                                    else suffixes_desc w)),
                        last_n_transitions := (last_n_transitions self)(env_id \<mapsto> [])\<rparr>)
            \<and> map length (suffixes_desc w) = rev [1..<Suc (length w)]
            \<and> map length (suffixes_desc (tl w)) = rev [1..<length w]
            \<and> (w = [] \<longrightarrow> (if length w = num_steps self then suffixes_desc (tl w)
                              else suffixes_desc w) = [])"
  using assms
  by (cases "getitem (last_n_transitions self) env_id")
     (auto simp add: stop_current_episode_def Let_def drain_queue suffixes_desc_map_length)

text \<open>
  With \<^verbatim>\<open>num_steps = 2\<close>, the full window \<open>[t1, t2]\<close> and the queue \<open>[[t1, t2]]\<close>, stopping
  the episode pushes \<open>[t2]\<close> alone.
\<close>

theorem stop_current_episode_emits_remaining_witness:
  "memory \<lparr>capacity = Some 3, num_steps = 2,
           memory = PyQueue \<lparr>items = [[step 1 False, step 2 False]], maxlen = Some 3\<rparr>,
           last_n_transitions = [0::nat \<mapsto> [step 1 False, step 2 False]]\<rparr>
     = PyQueue \<lparr>items = [[step 1 False, step 2 False]], maxlen = Some 3\<rparr>
   \<and> length (getitem [0::nat \<mapsto> [step 1 False, step 2 False]] 0) \<le> (2::nat)
   \<and> stop_current_episode
        \<lparr>capacity = Some 3, num_steps = 2,
         memory = PyQueue \<lparr>items = [[step 1 False, step 2 False]], maxlen = Some 3\<rparr>,
         last_n_transitions = [0::nat \<mapsto> [step 1 False, step 2 False]]\<rparr> 0
     = Inr \<lparr>capacity = Some 3, num_steps = 2,
            memory = PyQueue \<lparr>items = [[step 1 False, step 2 False], [step 2 False]],
                              maxlen = Some 3\<rparr>,
            last_n_transitions = [0 \<mapsto> []]\<rparr>"
  using stop_current_episode_emits_remaining
    [of "\<lparr>capacity = Some 3, num_steps = 2,
          memory = PyQueue \<lparr>items = [[step 1 False, step 2 False]], maxlen = Some 3\<rparr>,
          last_n_transitions = [0::nat \<mapsto> [step 1 False, step 2 False]]\<rparr>"
        "\<lparr>items = [[step 1 False, step 2 False]], maxlen = Some 3\<rparr>" 0]
  by (simp add: Let_def getitem_def raq_append_def)

section \<open>A scenario\<close>

text \<open>
  Claim C5. A buffer made with capacity 3 and \<^verbatim>\<open>num_steps = 2\<close>; three calls of
  \<^verbatim>\<open>append\<close> under one environment id, the third one terminal. After the first call
  nothing is stored; after the second the queue holds \<open>[t1, t2]\<close> alone; the third pushes
  \<open>[t2, t3]\<close> and then \<open>[t3]\<close>, and the queue ends as \<open>[[t1, t2], [t2, t3], [t3]]\<close>, of
  length 3, with the window empty.
\<close>

theorem scenario_capacity3_steps2:
  "\<exists>b0 b1 b2 b3 q2.
     init (Some 3) 2 = Inr b0
     \<and> append_rb b0 s1 a1 r1 ns1 na1 False env kw1 = Inr b1
     \<and> stored (memory b1) = []
     \<and> append_rb b1 s2 a2 r2 ns2 na2 False env kw2 = Inr b2
     \<and> memory b2 = PyQueue q2
     \<and> items q2 = [[\<lparr>state = s1, action = a1, reward = r1, next_state = ns1, next_action = na1,
                      is_state_terminal = False, kwargs = kw1\<rparr>,
                     \<lparr>state = s2, action = a2, reward = r2, next_state = ns2, next_action = na2,
                      is_state_terminal = False, kwargs = kw2\<rparr>]]
     \<and> append_rb b2 s3 a3 r3 ns3 na3 True env kw3 = Inr b3
     \<and> memory b3 =
         PyQueue (raq_append
           (raq_append q2
              [\<lparr>state = s2, action = a2, reward = r2, next_state = ns2, next_action = na2,
                 is_state_terminal = False, kwargs = kw2\<rparr>,
               \<lparr>state = s3, action = a3, reward = r3, next_state = ns3, next_action = na3,
                 is_state_terminal = True, kwargs = kw3\<rparr>])
              [\<lparr>state = s3, action = a3, reward = r3, next_state = ns3, next_action = na3,
                 is_state_terminal = True, kwargs = kw3\<rparr>])
     \<and> stored (memory b3) =
         [[\<lparr>state = s1, action = a1, reward = r1, next_state = ns1, next_action = na1,
             is_state_terminal = False, kwargs = kw1\<rparr>,
           \<lparr>state = s2, action = a2, reward = r2, next_state = ns2, next_action = na2,
             is_state_terminal = False, kwargs = kw2\<rparr>],
          [\<lparr>state = s2, action = a2, reward = r2, next_state = ns2, next_action = na2,
             is_state_terminal = False, kwargs = kw2\<rparr>,
           \<lparr>state = s3, action = a3, reward = r3, next_state = ns3, next_action = na3,
             is_state_terminal = True, kwargs = kw3\<rparr>],
          [\<lparr>state = s3, action = a3, reward = r3, next_state = ns3, next_action = na3,
             is_state_terminal = True, kwargs = kw3\<rparr>]]
     \<and> len_rb b3 = Inr 3
     \<and> last_n_transitions b3 env = Some []"
  by (simp add: init_def raq_init_def append_rb_def Let_def getitem_def deque_append_def
        raq_append_def len_rb_def raq_len_def)

end
